theory Spec2Isabelle
  imports Main
begin

section \<open>Data model of the extension\<close>

text \<open>
  The extension (\<^verbatim>\<open>src/extension.ts\<close>) manages the binary of a language server:
  it picks the binary for the platform, downloads it, tracks its version in a
  sidecar file and starts, stops and restarts the language client. Everything
  the TypeScript does to the outside is made explicit here: the file system, the
  persisted override, the global \<^verbatim>\<open>client\<close> variable, the notifications, the
  output channel and the list of HTTP requests are fields of one record that
  every function takes and returns. What the outside answers (HTTP replies, the
  button the user picks, whether the server process starts) is an argument.
\<close>

type_synonym path = string

text \<open>Values thrown by the runtime and the libraries.\<close>

datatype js_error =
    NetworkError string
  | StatusCodeError nat
  | SyntaxError string
  | FsError string path
  | WriteStreamError string
  | ClientError string

text \<open>The interfaces \<^verbatim>\<open>GitHubAsset\<close>, \<^verbatim>\<open>GitHubRelease\<close> and \<^verbatim>\<open>BinaryMetadata\<close>.\<close>

record GitHubAsset =
  asset_name :: string
  asset_updated_at :: string
  browser_download_url :: string

record GitHubRelease =
  release_tag_name :: string
  assets :: "GitHubAsset list"

record BinaryMetadata =
  updated_at :: string
  tag_name :: string

text \<open>
  An HTTP request ends without a response or with a status code and a body.
  \<^verbatim>\<open>axios\<close> rejects in the first case and, with its default status check, for
  every status outside 200..299.
\<close>

datatype 'a reply = NetworkFailure js_error | HttpResponse nat 'a

definition axios :: "'a reply \<Rightarrow> js_error + 'a" where
  "axios r =
     (case r of
        NetworkFailure e \<Rightarrow> Inl e
      | HttpResponse status body \<Rightarrow>
          if 200 \<le> status \<and> status < 300 then Inr body else Inl (StatusCodeError status))"

text \<open>
  The body of a download is a stream: the chunks that reach the file writer and,
  when the writer emits \<^verbatim>\<open>error\<close> after them, that error.
\<close>

datatype stream = Stream "string list" "js_error option"

text \<open>
  The file system maps a path to a regular file with its bytes or to a directory.
  \<open>readonly\<close> holds the paths at which the system refuses to create or write.
  File modes are not tracked: \<^verbatim>\<open>chmodSync\<close> changes no contents. Locks that
  a running process holds on its binary are not modelled either.
\<close>

datatype node = File string | Dir

datatype notification =
    ErrorMessage string "js_error option"
  | InformationMessage string
  | InformationPrompt string "string list"

record LanguageClient =
  ident :: nat
  command :: path
  running :: bool

record world =
  fs :: "path \<Rightarrow> node option"
  readonly :: "path set"
  customBinaryPath :: "path option"
  client :: "LanguageClient option"
  created :: nat
  processes :: "(nat \<times> path) list"
  notifications :: "notification list"
  outputChannel :: "(string \<times> js_error option) list"
  requests :: "string list"

text \<open>
  \<open>created\<close> counts the \<^verbatim>\<open>LanguageClient\<close> objects constructed so far and gives
  each its identity; \<open>processes\<close> lists the server processes that are alive.
  A line of the output channel or an error notification is a text and, where the
  source interpolates \<^verbatim>\<open>${error}\<close>, the error.
\<close>

text \<open>
  The host: what \<^verbatim>\<open>os.platform()\<close>, \<^verbatim>\<open>os.arch()\<close> and
  \<^verbatim>\<open>context.globalStorageUri.fsPath\<close> return, and the library functions
  \<^verbatim>\<open>JSON.parse\<close> (an error is a thrown \<^verbatim>\<open>SyntaxError\<close>), \<^verbatim>\<open>JSON.stringify\<close> and
  the time value of \<^verbatim>\<open>new Date(s)\<close> in milliseconds (\<open>None\<close> is an invalid date,
  whose time value is NaN). \<^verbatim>\<open>JSON.parse\<close> has the type the source declares
  for its result, \<^verbatim>\<open>BinaryMetadata\<close>.
\<close>

record host =
  os_platform :: string
  os_arch :: string
  globalStoragePath :: path
  JSON_parse :: "string \<Rightarrow> js_error + BinaryMetadata"
  JSON_stringify :: "BinaryMetadata \<Rightarrow> string"
  Date :: "string \<Rightarrow> int option"

section \<open>Host surface: output, notifications, file system\<close>

definition appendLine :: "string \<Rightarrow> world \<Rightarrow> world" where
  "appendLine s w = w\<lparr>outputChannel := outputChannel w @ [(s, None)]\<rparr>"

definition appendLineError :: "string \<Rightarrow> js_error \<Rightarrow> world \<Rightarrow> world" where
  "appendLineError s e w = w\<lparr>outputChannel := outputChannel w @ [(s, Some e)]\<rparr>"

definition showErrorMessage :: "string \<Rightarrow> js_error option \<Rightarrow> world \<Rightarrow> world" where
  "showErrorMessage s e w = w\<lparr>notifications := notifications w @ [ErrorMessage s e]\<rparr>"

definition showInformationMessage :: "string \<Rightarrow> world \<Rightarrow> world" where
  "showInformationMessage s w = w\<lparr>notifications := notifications w @ [InformationMessage s]\<rparr>"

definition request :: "string \<Rightarrow> world \<Rightarrow> world" where
  "request url w = w\<lparr>requests := requests w @ [url]\<rparr>"

definition existsSync :: "world \<Rightarrow> path \<Rightarrow> bool" where
  "existsSync w p = (fs w p \<noteq> None)"

definition mkdirSync :: "path \<Rightarrow> world \<Rightarrow> js_error + world" where
  "mkdirSync p w =
     (case fs w p of
        Some Dir \<Rightarrow> Inr w
      | Some (File c) \<Rightarrow> Inl (FsError ''EEXIST'' p)
      | None \<Rightarrow>
          if p \<in> readonly w then Inl (FsError ''EACCES'' p)
          else Inr (w\<lparr>fs := (fs w)(p \<mapsto> Dir)\<rparr>))"

definition readFileSync :: "world \<Rightarrow> path \<Rightarrow> js_error + string" where
  "readFileSync w p =
     (case fs w p of
        Some (File c) \<Rightarrow> Inr c
      | Some Dir \<Rightarrow> Inl (FsError ''EISDIR'' p)
      | None \<Rightarrow> Inl (FsError ''ENOENT'' p))"

definition writeFileSync :: "path \<Rightarrow> string \<Rightarrow> world \<Rightarrow> js_error + world" where
  "writeFileSync p c w =
     (if fs w p = Some Dir then Inl (FsError ''EISDIR'' p)
      else if p \<in> readonly w then Inl (FsError ''EACCES'' p)
      else Inr (w\<lparr>fs := (fs w)(p \<mapsto> File c)\<rparr>))"

definition chmodSync :: "path \<Rightarrow> world \<Rightarrow> js_error + world" where
  "chmodSync p w = (if fs w p = None then Inl (FsError ''ENOENT'' p) else Inr w)"

text \<open>
  \<^verbatim>\<open>path.join(dir, name)\<close> for a directory path and a file name; the
  normalisation that \<^verbatim>\<open>path.join\<close> also does is left out.
\<close>

definition path_join :: "host \<Rightarrow> path \<Rightarrow> string \<Rightarrow> path" where
  "path_join h dir file =
     dir @ (if os_platform h = ''win32'' then [CHR 0x5C] else ''/'') @ file"

section \<open>Platform and binary detection\<close>

definition getServerBinaryName :: "host \<Rightarrow> string option" where
  "getServerBinaryName h =
     (let platform = os_platform h; arch = os_arch h in
      if platform = ''linux'' then
        (if arch = ''x64'' then Some ''forgevsc-linux-x86_64''
         else if arch = ''arm64'' then Some ''forgevsc-linux-aarch64''
         else None)
      else if platform = ''darwin'' then
        (if arch = ''x64'' then Some ''forgevsc-macos-x86_64''
         else if arch = ''arm64'' then Some ''forgevsc-macos-aarch64''
         else None)
      else if platform = ''win32'' then
        (if arch = ''x64'' then Some ''forgevsc-windows-x86_64.exe'' else None)
      else None)"

section \<open>Update checking and metadata\<close>

definition release_url :: string where
  "release_url = ''https://api.github.com/repos/zack-911/forgelsp/releases/tags/master''"

definition getLatestReleaseInfo ::
  "string \<Rightarrow> GitHubRelease reply \<Rightarrow> world \<Rightarrow> BinaryMetadata option \<times> world" where
  "getLatestReleaseInfo binaryName r w =
     (let w1 = request release_url w in
      case axios r of
        Inl e \<Rightarrow> (None, appendLineError ''Failed to check for updates: '' e w1)
      | Inr d \<Rightarrow>
          (case find (\<lambda>a. asset_name a = binaryName) (assets d) of
             Some asset \<Rightarrow>
               (Some \<lparr>updated_at = asset_updated_at asset, tag_name = release_tag_name d\<rparr>, w1)
           | None \<Rightarrow> (None, w1)))"

definition getMetadataPath :: "path \<Rightarrow> path" where
  "getMetadataPath binaryPath = binaryPath @ ''.meta.json''"

definition readMetadata :: "host \<Rightarrow> path \<Rightarrow> world \<Rightarrow> BinaryMetadata option \<times> world" where
  "readMetadata h binaryPath w =
     (let metadataPath = getMetadataPath binaryPath in
      if \<not> existsSync w metadataPath then (None, w)
      else
        (case readFileSync w metadataPath of
           Inl e \<Rightarrow> (None, appendLineError ''Failed to read metadata: '' e w)
         | Inr content \<Rightarrow>
             (case JSON_parse h content of
                Inl e \<Rightarrow> (None, appendLineError ''Failed to read metadata: '' e w)
              | Inr m \<Rightarrow> (Some m, w))))"

definition writeMetadata :: "host \<Rightarrow> path \<Rightarrow> BinaryMetadata \<Rightarrow> world \<Rightarrow> world" where
  "writeMetadata h binaryPath metadata w =
     (let metadataPath = getMetadataPath binaryPath in
      case writeFileSync metadataPath (JSON_stringify h metadata) w of
        Inl e \<Rightarrow> appendLineError ''Failed to write metadata: '' e w
      | Inr w' \<Rightarrow> w')"

text \<open>
  \<^verbatim>\<open>remoteDate > localDate\<close> compares the time values of two \<^verbatim>\<open>Date\<close> objects
  as numbers; a comparison with NaN is false.
\<close>

definition date_gt :: "int option \<Rightarrow> int option \<Rightarrow> bool" where
  "date_gt a b = (case a of None \<Rightarrow> False | Some x \<Rightarrow> (case b of None \<Rightarrow> False | Some y \<Rightarrow> y < x))"

definition shouldUpdate ::
  "host \<Rightarrow> path \<Rightarrow> string \<Rightarrow> GitHubRelease reply \<Rightarrow> world \<Rightarrow> bool \<times> world" where
  "shouldUpdate h binaryPath binaryName r w =
     (case readMetadata h binaryPath w of
        (None, w1) \<Rightarrow> (False, w1)
      | (Some localMetadata, w1) \<Rightarrow>
          (case getLatestReleaseInfo binaryName r w1 of
             (None, w2) \<Rightarrow> (False, w2)
           | (Some remoteInfo, w2) \<Rightarrow>
               (let localDate = Date h (updated_at localMetadata);
                    remoteDate = Date h (updated_at remoteInfo)
                in (date_gt remoteDate localDate, w2))))"

section \<open>Binary download\<close>

text \<open>
  What the outside answers during one \<^verbatim>\<open>downloadBinary\<close>: the reply to the
  request for the artifact and the reply to the release query made after the
  file is written. The progress notification and the \<^verbatim>\<open>console.log\<close> line
  are left out. The promise of \<^verbatim>\<open>downloadBinary\<close> is settled by two events
  of the writer only: \<^verbatim>\<open>error\<close> rejects it, \<^verbatim>\<open>close\<close> without an error
  resolves it.
\<close>

record download_env =
  artifact :: "stream reply"
  release_after :: "GitHubRelease reply"

definition download_url :: "string \<Rightarrow> string" where
  "download_url filename = ''https://github.com/zack-911/forgelsp/releases/download/master/'' @ filename"

text \<open>
  \<^verbatim>\<open>fs.createWriteStream(destPath)\<close> with the response piped into it. The file
  is opened for writing, which creates it or empties it; a path that cannot be
  opened makes the writer emit \<^verbatim>\<open>error\<close> with nothing written. Then the
  chunks are written in order. The result is the error the writer emitted, if any.
\<close>

definition createWriteStream :: "path \<Rightarrow> stream \<Rightarrow> world \<Rightarrow> js_error option \<times> world" where
  "createWriteStream destPath s w =
     (case s of Stream chunks failure \<Rightarrow>
        if fs w destPath = Some Dir then (Some (FsError ''EISDIR'' destPath), w)
        else if destPath \<in> readonly w then (Some (FsError ''EACCES'' destPath), w)
        else (failure, w\<lparr>fs := (fs w)(destPath \<mapsto> File (concat chunks))\<rparr>))"

text \<open>
  The handler of the writer's \<^verbatim>\<open>close\<close> event when no error was seen
  (lines 567-580): the release is queried and, when it is found, written to the
  sidecar.
\<close>

definition writer_close :: "host \<Rightarrow> string \<Rightarrow> path \<Rightarrow> GitHubRelease reply \<Rightarrow> world \<Rightarrow> world" where
  "writer_close h filename destPath r w =
     (case getLatestReleaseInfo filename r (appendLine ''Download complete.'' w) of
        (Some releaseInfo, w') \<Rightarrow>
          appendLine ''Metadata saved.'' (writeMetadata h destPath releaseInfo w')
      | (None, w') \<Rightarrow> w')"

definition downloadBinary ::
  "host \<Rightarrow> string \<Rightarrow> path \<Rightarrow> download_env \<Rightarrow> world \<Rightarrow> (js_error + unit) \<times> world" where
  "downloadBinary h filename destPath env w =
     (let url = download_url filename;
          w1 = appendLine (''Downloading binary from '' @ url) w;
          w2 = request url w1
      in case axios (artifact env) of
           Inl e \<Rightarrow> (Inl e, w2)
         | Inr response \<Rightarrow>
             (case createWriteStream destPath response w2 of
                (Some err, w3) \<Rightarrow> (Inl err, w3)
              | (None, w3) \<Rightarrow> (Inr (), writer_close h filename destPath (release_after env) w3)))"

section \<open>Language server management\<close>

text \<open>
  Exceptions: an action returns \<open>Inl\<close> of the thrown value or \<open>Inr ()\<close>, with
  the world as it is at that moment. \<open>andThen\<close> runs the next statement only when
  nothing was thrown; \<open>attempt\<close> turns a file-system call into an action.
\<close>

type_synonym outcome = "(js_error + unit) \<times> world"

definition andThen :: "outcome \<Rightarrow> (world \<Rightarrow> outcome) \<Rightarrow> outcome" where
  "andThen r f = (case r of (Inl e, w) \<Rightarrow> (Inl e, w) | (Inr u, w) \<Rightarrow> f w)"

definition attempt :: "(world \<Rightarrow> js_error + world) \<Rightarrow> world \<Rightarrow> outcome" where
  "attempt f w = (case f w of Inl e \<Rightarrow> (Inl e, w) | Inr w' \<Rightarrow> (Inr (), w'))"

text \<open>The guard \<^verbatim>\<open>client && client.isRunning()\<close>.\<close>

definition isRunning :: "world \<Rightarrow> bool" where
  "isRunning w = (case client w of None \<Rightarrow> False | Some c \<Rightarrow> running c)"

text \<open>
  \<^verbatim>\<open>await client.stop()\<close>: it throws, or the client stops running and its
  process ends.
\<close>

definition client_stop :: "js_error option \<Rightarrow> world \<Rightarrow> js_error + world" where
  "client_stop result w =
     (case result of
        Some e \<Rightarrow> Inl e
      | None \<Rightarrow>
          (case client w of
             None \<Rightarrow> Inr w
           | Some c \<Rightarrow>
               Inr (w\<lparr>client := Some (c\<lparr>running := False\<rparr>),
                       processes := filter (\<lambda>p. fst p \<noteq> ident c) (processes w)\<rparr>)))"

text \<open>
  Lines 255-258 of \<^verbatim>\<open>startClient\<close> and 156-159 of the update command: the
  storage directory is created when it does not exist.
\<close>

definition ensureStorage :: "host \<Rightarrow> world \<Rightarrow> outcome" where
  "ensureStorage h w =
     (let storagePath = globalStoragePath h in
      if \<not> existsSync w storagePath then attempt (mkdirSync storagePath) w else (Inr (), w))"

text \<open>
  The condition \<^verbatim>\<open>customPath && fs.existsSync(customPath)\<close>: an unset override
  and the empty string are falsy.
\<close>

definition customExists :: "path option \<Rightarrow> world \<Rightarrow> bool" where
  "customExists customPath w =
     (case customPath of None \<Rightarrow> False | Some p \<Rightarrow> p \<noteq> [] \<and> existsSync w p)"

text \<open>
  Lines 260-268 of \<^verbatim>\<open>startClient\<close> and 161-168 of the update command: the
  binary path is the override when it is set and exists, and the storage
  location otherwise.
\<close>

definition resolveServerPath :: "host \<Rightarrow> string \<Rightarrow> world \<Rightarrow> path \<times> world" where
  "resolveServerPath h serverBinaryName w =
     (case customBinaryPath w of
        None \<Rightarrow> (path_join h (globalStoragePath h) serverBinaryName, w)
      | Some customPath \<Rightarrow>
          if customExists (Some customPath) w
          then (customPath, appendLine (''Using custom LSP binary at '' @ customPath) w)
          else (path_join h (globalStoragePath h) serverBinaryName, w))"

text \<open>
  What the outside answers during one \<^verbatim>\<open>startClient\<close>: the reply to the
  release query of \<^verbatim>\<open>shouldUpdate\<close>, the button picked in the prompt (\<open>None\<close>
  when it is dismissed), the answers to the download, and the error of
  \<^verbatim>\<open>client.start()\<close> if it throws.
\<close>

record start_env =
  release_check :: "GitHubRelease reply"
  choice :: "string option"
  download :: download_env
  client_start :: "js_error option"

text \<open>
  Lines 316-363: the execute permission, the construction of the client, which
  is assigned to the global variable before it is started, and its start.
\<close>

definition startClient_launch :: "host \<Rightarrow> path \<Rightarrow> js_error option \<Rightarrow> world \<Rightarrow> outcome" where
  "startClient_launch h serverPath start_result w =
     andThen (if os_platform h \<noteq> ''win32'' then attempt (chmodSync serverPath) w else (Inr (), w))
       (\<lambda>w1.
          let c = \<lparr>ident = created w1, command = serverPath, running = False\<rparr>;
              w2 = w1\<lparr>client := Some c, created := Suc (created w1)\<rparr>;
              w3 = appendLine ''Starting Forge Language Server...'' w2
          in case start_result of
               Some e \<Rightarrow> (Inl e, w3)
             | None \<Rightarrow>
                 (Inr (),
                  appendLine ''Forge Language Server started.''
                    (w3\<lparr>client := Some (c\<lparr>running := True\<rparr>),
                        processes := processes w3 @ [(ident c, serverPath)]\<rparr>)))"

text \<open>
  \<^verbatim>\<open>startClient\<close> waits for the user at one of two prompts. It is written in two
  parts: \<open>startClient_begin\<close> runs up to the prompt, where the call is
  suspended with the binary name and path it has computed, and
  \<open>startClient_resume\<close> runs from the answer on. A call that shows no prompt
  ends in the first part.
\<close>

datatype pending = DownloadPrompt string path | UpdatePrompt string path

datatype begun = Returned "js_error + unit" world | Suspended pending world

definition startClient_begin :: "host \<Rightarrow> start_env \<Rightarrow> world \<Rightarrow> begun" where
  "startClient_begin h env w =
     (if isRunning w then Returned (Inr ()) w
      else
        (case getServerBinaryName h of
           None \<Rightarrow>
             (let msg = ''ForgeLSP: Unsupported platform or architecture.'' in
              Returned (Inr ()) (appendLine msg (showErrorMessage msg None w)))
         | Some serverBinaryName \<Rightarrow>
             (case ensureStorage h w of
                (Inl e, w1) \<Rightarrow> Returned (Inl e) w1
              | (Inr u, w1) \<Rightarrow>
                  (case resolveServerPath h serverBinaryName w1 of
                     (serverPath, w2) \<Rightarrow>
                       if \<not> existsSync w2 serverPath then
                         Suspended (DownloadPrompt serverBinaryName serverPath)
                           (w2\<lparr>notifications := notifications w2 @
                              [InformationPrompt
                                 (''ForgeLSP binary not found. Download '' @ serverBinaryName @ ''?'')
                                 [''Download'', ''Cancel'']]\<rparr>)
                       else
                         (case shouldUpdate h serverPath serverBinaryName (release_check env) w2 of
                            (True, w3) \<Rightarrow>
                              Suspended (UpdatePrompt serverBinaryName serverPath)
                                (w3\<lparr>notifications := notifications w3 @
                                   [InformationPrompt
                                      ''A new version of ForgeLSP is available. Update now?''
                                      [''Update'', ''Skip'']]\<rparr>)
                          | (False, w3) \<Rightarrow>
                              (case startClient_launch h serverPath (client_start env) w3 of
                                 (r, w4) \<Rightarrow> Returned r w4))))))"

definition startClient_resume :: "host \<Rightarrow> start_env \<Rightarrow> pending \<Rightarrow> world \<Rightarrow> outcome" where
  "startClient_resume h env p w =
     (case p of
        DownloadPrompt serverBinaryName serverPath \<Rightarrow>
          if choice env = Some ''Download'' then
            (case downloadBinary h serverBinaryName serverPath (download env) w of
               (Inl e, w1) \<Rightarrow>
                 (let msg = ''ForgeLSP: Failed to download binary. '' in
                  (Inr (), appendLineError msg e (showErrorMessage msg (Some e) w1)))
             | (Inr u, w1) \<Rightarrow>
                 startClient_launch h serverPath (client_start env)
                   (showInformationMessage ''ForgeLSP binary downloaded successfully.'' w1))
          else (Inr (), w)
      | UpdatePrompt serverBinaryName serverPath \<Rightarrow>
          if choice env = Some ''Update'' then
            (case downloadBinary h serverBinaryName serverPath (download env)
                    (appendLine ''Updating ForgeLSP binary...'' w) of
               (Inl e, w1) \<Rightarrow>
                 (let msg = ''ForgeLSP: Failed to update binary. '' in
                  startClient_launch h serverPath (client_start env)
                    (appendLineError msg e (showErrorMessage msg (Some e) w1)))
             | (Inr u, w1) \<Rightarrow>
                 startClient_launch h serverPath (client_start env)
                   (showInformationMessage ''ForgeLSP binary updated successfully.'' w1))
          else startClient_launch h serverPath (client_start env) w)"

definition startClient :: "host \<Rightarrow> start_env \<Rightarrow> world \<Rightarrow> outcome" where
  "startClient h env w =
     (case startClient_begin h env w of
        Returned r w' \<Rightarrow> (r, w')
      | Suspended p w' \<Rightarrow> startClient_resume h env p w')"

section \<open>The command \<^verbatim>\<open>forgevsc.updateLSP\<close>\<close>

text \<open>
  What the outside answers during one run of the command: the error of
  \<^verbatim>\<open>client.stop()\<close> if it throws, the answers to the command's own download,
  to the restart and to the second start that the \<^verbatim>\<open>catch\<close> block attempts.
\<close>

record update_env =
  stop_result :: "js_error option"
  update_download :: download_env
  restart :: start_env
  retry :: start_env

text \<open>The body of the \<^verbatim>\<open>try\<close> block, lines 171-192.\<close>

definition updateLSP_try ::
  "host \<Rightarrow> update_env \<Rightarrow> string \<Rightarrow> path option \<Rightarrow> path \<Rightarrow> world \<Rightarrow> outcome" where
  "updateLSP_try h env serverBinaryName customPath serverPath w =
     andThen
       (if isRunning w then
          andThen (attempt (client_stop (stop_result env)) (appendLine ''Stopping LSP for update...'' w))
            (\<lambda>w1. (Inr (), appendLine ''LSP stopped.'' w1))
        else (Inr (), w))
       (\<lambda>w1.
          andThen
            (if customExists customPath w1 then
               (Inr (), showInformationMessage ''ForgeLSP: Using custom binary; update skipped.'' w1)
             else
               andThen
                 (downloadBinary h serverBinaryName serverPath (update_download env)
                    (appendLine ''Manual LSP update triggered...'' w1))
                 (\<lambda>w2. if os_platform h \<noteq> ''win32'' then attempt (chmodSync serverPath) w2
                       else (Inr (), w2)))
            (\<lambda>w2.
               startClient h (restart env)
                 (showInformationMessage
                    ''ForgeLSP binary updated successfully. Restarting LSP...'' w2)))"

definition updateLSP :: "host \<Rightarrow> update_env \<Rightarrow> world \<Rightarrow> outcome" where
  "updateLSP h env w =
     (case getServerBinaryName h of
        None \<Rightarrow>
          (Inr (), showErrorMessage ''ForgeLSP: Unsupported platform or architecture.'' None w)
      | Some serverBinaryName \<Rightarrow>
          andThen (ensureStorage h w)
            (\<lambda>w1.
               case resolveServerPath h serverBinaryName w1 of
                 (serverPath, w2) \<Rightarrow>
                   (case updateLSP_try h env serverBinaryName (customBinaryPath w1) serverPath w2 of
                      (Inr u, w3) \<Rightarrow> (Inr u, w3)
                    | (Inl error, w3) \<Rightarrow>
                        (let msg = ''ForgeLSP: Failed to update binary. '';
                             w4 = appendLineError msg error (showErrorMessage msg (Some error) w3)
                         in if \<not> isRunning w4 then
                              (case startClient h (retry env) w4 of
                                 (Inl restartError, w5) \<Rightarrow>
                                   (Inr (), appendLineError ''Failed to restart LSP: '' restartError w5)
                               | (Inr u, w5) \<Rightarrow> (Inr u, w5))
                            else (Inr (), w4)))))"

section \<open>The claims' vocabulary and example values\<close>

text \<open>
  The support matrix in the words of the specification: Linux and macOS on
  x86_64 and arm64, Windows on x86_64 only, with the names Node gives to these
  systems and architectures.
\<close>

definition supported_matrix :: "string \<Rightarrow> string \<Rightarrow> bool" where
  "supported_matrix platform arch =
     ((platform = ''linux'' \<or> platform = ''darwin'') \<and> (arch = ''x64'' \<or> arch = ''arm64'')
      \<or> platform = ''win32'' \<and> arch = ''x64'')"

text \<open>
  A Linux host for the examples. Its \<open>Date\<close> knows the two timestamps of the
  specification's example, and its JSON functions know the text that
  \<^verbatim>\<open>JSON.stringify(metadata, null, 2)\<close> gives for the two example values.
\<close>

definition example_old :: BinaryMetadata where
  "example_old = \<lparr>updated_at = ''2024-01-01T00:00:00Z'', tag_name = ''master''\<rparr>"

definition example_new :: BinaryMetadata where
  "example_new = \<lparr>updated_at = ''2024-01-02T00:00:00Z'', tag_name = ''master''\<rparr>"

definition example_date :: "string \<Rightarrow> int option" where
  "example_date s =
     (if s = ''2024-01-01T00:00:00Z'' then Some 1704067200000
      else if s = ''2024-01-02T00:00:00Z'' then Some 1704153600000
      else None)"

definition example_json :: "BinaryMetadata \<Rightarrow> string" where
  \<open>example_json m =
     ''{'' @ [CHR 0x0A] @ ''  "updated_at": "'' @ updated_at m @ ''",'' @ [CHR 0x0A] @
     ''  "tag_name": "'' @ tag_name m @ ''"'' @ [CHR 0x0A] @ ''}''\<close>

definition example_parse :: "string \<Rightarrow> js_error + BinaryMetadata" where
  "example_parse s =
     (if s = example_json example_old then Inr example_old
      else if s = example_json example_new then Inr example_new
      else Inl (SyntaxError ''Unexpected token''))"

definition example_host :: host where
  "example_host =
     \<lparr>os_platform = ''linux'', os_arch = ''x64'', globalStoragePath = ''/storage'',
      JSON_parse = example_parse, JSON_stringify = example_json, Date = example_date\<rparr>"

definition example_bin :: path where
  "example_bin = ''/storage/forgevsc-linux-x86_64''"

text \<open>The release index with the asset of the example host, published on the later day.\<close>

definition example_release :: "GitHubRelease reply" where
  "example_release =
     HttpResponse 200
       \<lparr>release_tag_name = ''master'',
        assets =
          [\<lparr>asset_name = ''forgevsc-linux-x86_64'',
            asset_updated_at = ''2024-01-02T00:00:00Z'',
            browser_download_url = download_url ''forgevsc-linux-x86_64''\<rparr>]\<rparr>"

text \<open>A download that completes, and one whose writer fails after the first chunk.\<close>

definition example_download :: download_env where
  "example_download =
     \<lparr>artifact = HttpResponse 200 (Stream [''NE'', ''W''] None), release_after = example_release\<rparr>"

definition broken_download :: download_env where
  "broken_download =
     \<lparr>artifact = HttpResponse 200 (Stream [''NE''] (Some (WriteStreamError ''ENOSPC''))),
      release_after = example_release\<rparr>"

definition example_start :: "string option \<Rightarrow> start_env" where
  "example_start c =
     \<lparr>release_check = example_release, choice = c, download = example_download,
      client_start = None\<rparr>"

text \<open>
  Worlds: nothing on disk; the storage directory alone; the binary of the
  earlier day installed with its sidecar; an override binary with a sidecar
  of the earlier day beside a binary at the storage location; the installed binary running; the installed binary
  with the update prompt of a first start request open; and the storage directory
  with a sidecar path that cannot be written.
\<close>

definition fresh :: world where
  "fresh =
     \<lparr>fs = Map.empty, readonly = {}, customBinaryPath = None, client = None, created = 0,
      processes = [], notifications = [], outputChannel = [], requests = []\<rparr>"

definition stored :: world where
  "stored = fresh\<lparr>fs := [''/storage'' \<mapsto> Dir]\<rparr>"

definition installed :: world where
  "installed =
     fresh\<lparr>fs := [''/storage'' \<mapsto> Dir, example_bin \<mapsto> File ''OLD'',
                   getMetadataPath example_bin \<mapsto> File (example_json example_old)]\<rparr>"

definition overridden :: world where
  "overridden =
     fresh\<lparr>fs := [''/storage'' \<mapsto> Dir, example_bin \<mapsto> File ''OLD'',
                   ''/opt/lsp'' \<mapsto> File ''CUSTOM'',
                   getMetadataPath ''/opt/lsp'' \<mapsto> File (example_json example_old)],
            customBinaryPath := Some ''/opt/lsp''\<rparr>"

definition running_world :: world where
  "running_world =
     installed\<lparr>client := Some \<lparr>ident = 0, command = example_bin, running = True\<rparr>,
               created := 1, processes := [(0, example_bin)]\<rparr>"

definition prompted :: world where
  "prompted =
     installed\<lparr>notifications :=
                 [InformationPrompt ''A new version of ForgeLSP is available. Update now?''
                    [''Update'', ''Skip'']],
               requests := [release_url]\<rparr>"

definition sidecar_locked :: world where
  "sidecar_locked = stored\<lparr>readonly := {getMetadataPath example_bin}\<rparr>"

definition example_update :: update_env where
  "example_update =
     \<lparr>stop_result = None, update_download = example_download,
      restart = example_start (Some ''Update''), retry = example_start None\<rparr>"

section \<open>What each operation leaves unchanged\<close>

lemmas surface_defs =
  appendLine_def appendLineError_def showErrorMessage_def showInformationMessage_def request_def

lemmas fs_defs =
  existsSync_def mkdirSync_def readFileSync_def writeFileSync_def chmodSync_def path_join_def

lemmas example_defs =
  example_old_def example_new_def example_date_def example_json_def example_parse_def
  example_host_def example_bin_def example_release_def example_download_def broken_download_def
  example_start_def fresh_def stored_def installed_def overridden_def running_world_def
  prompted_def sidecar_locked_def example_update_def

lemmas code_defs =
  axios_def getServerBinaryName_def release_url_def getLatestReleaseInfo_def getMetadataPath_def
  readMetadata_def writeMetadata_def date_gt_def shouldUpdate_def download_url_def
  createWriteStream_def writer_close_def downloadBinary_def andThen_def attempt_def isRunning_def
  client_stop_def ensureStorage_def customExists_def resolveServerPath_def startClient_launch_def
  startClient_begin_def startClient_resume_def startClient_def updateLSP_try_def updateLSP_def

lemma appendLine_frame [simp]:
  "fs (appendLine s w) = fs w" "readonly (appendLine s w) = readonly w"
  "customBinaryPath (appendLine s w) = customBinaryPath w" "client (appendLine s w) = client w"
  "created (appendLine s w) = created w" "processes (appendLine s w) = processes w"
  "notifications (appendLine s w) = notifications w" "requests (appendLine s w) = requests w"
  by (simp_all add: appendLine_def)

lemma appendLineError_frame [simp]:
  "fs (appendLineError s e w) = fs w" "readonly (appendLineError s e w) = readonly w"
  "customBinaryPath (appendLineError s e w) = customBinaryPath w"
  "client (appendLineError s e w) = client w"
  "created (appendLineError s e w) = created w" "processes (appendLineError s e w) = processes w"
  "notifications (appendLineError s e w) = notifications w"
  "requests (appendLineError s e w) = requests w"
  by (simp_all add: appendLineError_def)

lemma showErrorMessage_frame [simp]:
  "fs (showErrorMessage s e w) = fs w" "readonly (showErrorMessage s e w) = readonly w"
  "customBinaryPath (showErrorMessage s e w) = customBinaryPath w"
  "client (showErrorMessage s e w) = client w"
  "created (showErrorMessage s e w) = created w" "processes (showErrorMessage s e w) = processes w"
  "outputChannel (showErrorMessage s e w) = outputChannel w"
  "requests (showErrorMessage s e w) = requests w"
  by (simp_all add: showErrorMessage_def)

lemma showInformationMessage_frame [simp]:
  "fs (showInformationMessage s w) = fs w" "readonly (showInformationMessage s w) = readonly w"
  "customBinaryPath (showInformationMessage s w) = customBinaryPath w"
  "client (showInformationMessage s w) = client w"
  "created (showInformationMessage s w) = created w"
  "processes (showInformationMessage s w) = processes w"
  "outputChannel (showInformationMessage s w) = outputChannel w"
  "requests (showInformationMessage s w) = requests w"
  by (simp_all add: showInformationMessage_def)

lemma request_frame [simp]:
  "fs (request u w) = fs w" "readonly (request u w) = readonly w"
  "customBinaryPath (request u w) = customBinaryPath w" "client (request u w) = client w"
  "created (request u w) = created w" "processes (request u w) = processes w"
  "notifications (request u w) = notifications w" "outputChannel (request u w) = outputChannel w"
  by (simp_all add: request_def)

lemma isRunning_frame [simp]:
  "isRunning (appendLine s w) = isRunning w" "isRunning (appendLineError s e w) = isRunning w"
  "isRunning (showErrorMessage s eo w) = isRunning w"
  "isRunning (showInformationMessage s w) = isRunning w"
  "isRunning (request u w) = isRunning w"
  by (simp_all add: isRunning_def)

lemma existsSync_frame [simp]:
  "existsSync (appendLine s w) = existsSync w" "existsSync (appendLineError s e w) = existsSync w"
  "existsSync (showErrorMessage s eo w) = existsSync w"
  "existsSync (showInformationMessage s w) = existsSync w"
  "existsSync (request u w) = existsSync w"
  by (simp_all add: existsSync_def fun_eq_iff)


lemma getLatestReleaseInfo_frame [simp]:
  "fs (snd (getLatestReleaseInfo n r w)) = fs w"
  "readonly (snd (getLatestReleaseInfo n r w)) = readonly w"
  "customBinaryPath (snd (getLatestReleaseInfo n r w)) = customBinaryPath w"
  "client (snd (getLatestReleaseInfo n r w)) = client w"
  "created (snd (getLatestReleaseInfo n r w)) = created w"
  "processes (snd (getLatestReleaseInfo n r w)) = processes w"
  "notifications (snd (getLatestReleaseInfo n r w)) = notifications w"
  "requests (snd (getLatestReleaseInfo n r w)) = requests w @ [release_url]"
  by (simp_all add: getLatestReleaseInfo_def Let_def request_def split: sum.splits option.splits)

lemma readMetadata_frame [simp]:
  "fs (snd (readMetadata h p w)) = fs w"
  "readonly (snd (readMetadata h p w)) = readonly w"
  "customBinaryPath (snd (readMetadata h p w)) = customBinaryPath w"
  "client (snd (readMetadata h p w)) = client w"
  "created (snd (readMetadata h p w)) = created w"
  "processes (snd (readMetadata h p w)) = processes w"
  "notifications (snd (readMetadata h p w)) = notifications w"
  "requests (snd (readMetadata h p w)) = requests w"
  by (simp_all add: readMetadata_def Let_def split: sum.splits)

lemma writeMetadata_frame [simp]:
  "readonly (writeMetadata h p m w) = readonly w"
  "customBinaryPath (writeMetadata h p m w) = customBinaryPath w"
  "client (writeMetadata h p m w) = client w"
  "created (writeMetadata h p m w) = created w"
  "processes (writeMetadata h p m w) = processes w"
  "notifications (writeMetadata h p m w) = notifications w"
  "requests (writeMetadata h p m w) = requests w"
  by (simp_all add: writeMetadata_def writeFileSync_def Let_def)

lemma writeMetadata_fs:
  "q \<noteq> getMetadataPath p \<Longrightarrow> fs (writeMetadata h p m w) q = fs w q"
  by (simp add: writeMetadata_def writeFileSync_def Let_def)

text \<open>\<^verbatim>\<open>shouldUpdate\<close> reads: it writes no file and touches no client.\<close>

lemma shouldUpdate_frame [simp]:
  "fs (snd (shouldUpdate h p n r w)) = fs w"
  "readonly (snd (shouldUpdate h p n r w)) = readonly w"
  "customBinaryPath (snd (shouldUpdate h p n r w)) = customBinaryPath w"
  "client (snd (shouldUpdate h p n r w)) = client w"
  "created (snd (shouldUpdate h p n r w)) = created w"
  "processes (snd (shouldUpdate h p n r w)) = processes w"
  "notifications (snd (shouldUpdate h p n r w)) = notifications w"
proof -
  obtain m w1 where rm: "readMetadata h p w = (m, w1)"
    by (cases "readMetadata h p w")
  then have w1: "w1 = snd (readMetadata h p w)"
    by simp
  obtain x w2 where g: "getLatestReleaseInfo n r w1 = (x, w2)"
    by (cases "getLatestReleaseInfo n r w1")
  then have w2: "w2 = snd (getLatestReleaseInfo n r w1)"
    by simp
  have s: "snd (shouldUpdate h p n r w) = w1 \<or> snd (shouldUpdate h p n r w) = w2"
    using rm g by (simp add: shouldUpdate_def Let_def split: option.splits)
  have f1: "fs w1 = fs w" "readonly w1 = readonly w" "customBinaryPath w1 = customBinaryPath w"
    "client w1 = client w" "created w1 = created w" "processes w1 = processes w"
    "notifications w1 = notifications w"
    by (simp_all add: w1)
  have f2: "fs w2 = fs w" "readonly w2 = readonly w" "customBinaryPath w2 = customBinaryPath w"
    "client w2 = client w" "created w2 = created w" "processes w2 = processes w"
    "notifications w2 = notifications w"
    by (simp_all add: w2 f1)
  show "fs (snd (shouldUpdate h p n r w)) = fs w"
    "readonly (snd (shouldUpdate h p n r w)) = readonly w"
    "customBinaryPath (snd (shouldUpdate h p n r w)) = customBinaryPath w"
    "client (snd (shouldUpdate h p n r w)) = client w"
    "created (snd (shouldUpdate h p n r w)) = created w"
    "processes (snd (shouldUpdate h p n r w)) = processes w"
    "notifications (snd (shouldUpdate h p n r w)) = notifications w"
    using s f1 f2 by auto
qed

section \<open>The download, step by step\<close>

lemma writer_close_frame [simp]:
  "readonly (writer_close h n p r w) = readonly w"
  "customBinaryPath (writer_close h n p r w) = customBinaryPath w"
  "client (writer_close h n p r w) = client w"
  "created (writer_close h n p r w) = created w"
  "processes (writer_close h n p r w) = processes w"
  "notifications (writer_close h n p r w) = notifications w"
  "requests (writer_close h n p r w) = requests w @ [release_url]"
proof -
  obtain x w' where g: "getLatestReleaseInfo n r (appendLine ''Download complete.'' w) = (x, w')"
    by (cases "getLatestReleaseInfo n r (appendLine ''Download complete.'' w)")
  then have "w' = snd (getLatestReleaseInfo n r (appendLine ''Download complete.'' w))"
    by simp
  then have f: "readonly w' = readonly w" "customBinaryPath w' = customBinaryPath w"
    "client w' = client w" "created w' = created w" "processes w' = processes w"
    "notifications w' = notifications w" "requests w' = requests w @ [release_url]"
    by simp_all
  show "readonly (writer_close h n p r w) = readonly w"
    "customBinaryPath (writer_close h n p r w) = customBinaryPath w"
    "client (writer_close h n p r w) = client w"
    "created (writer_close h n p r w) = created w"
    "processes (writer_close h n p r w) = processes w"
    "notifications (writer_close h n p r w) = notifications w"
    "requests (writer_close h n p r w) = requests w @ [release_url]"
    using g f by (simp_all add: writer_close_def split: option.splits)
qed

lemma writer_close_fs:
  assumes "q \<noteq> getMetadataPath p"
  shows "fs (writer_close h n p r w) q = fs w q"
proof -
  obtain x w' where g: "getLatestReleaseInfo n r (appendLine ''Download complete.'' w) = (x, w')"
    by (cases "getLatestReleaseInfo n r (appendLine ''Download complete.'' w)")
  then have "w' = snd (getLatestReleaseInfo n r (appendLine ''Download complete.'' w))"
    by simp
  then have "fs w' = fs w"
    by simp
  then show ?thesis
    using g assms by (simp add: writer_close_def writeMetadata_fs split: option.splits)
qed




lemma createWriteStream_frame [simp]:
  "readonly (snd (createWriteStream p s w)) = readonly w"
  "customBinaryPath (snd (createWriteStream p s w)) = customBinaryPath w"
  "client (snd (createWriteStream p s w)) = client w"
  "created (snd (createWriteStream p s w)) = created w"
  "processes (snd (createWriteStream p s w)) = processes w"
  "notifications (snd (createWriteStream p s w)) = notifications w"
  "requests (snd (createWriteStream p s w)) = requests w"
  by (cases s; simp add: createWriteStream_def)+

lemma createWriteStream_fs:
  "q \<noteq> p \<Longrightarrow> fs (snd (createWriteStream p s w)) q = fs w q"
  by (cases s) (simp add: createWriteStream_def)

text \<open>The world in which the writer is opened, and \<^verbatim>\<open>downloadBinary\<close> from there.\<close>

lemma downloadBinary_unfold:
  "downloadBinary h filename destPath env w =
     (case axios (artifact env) of
        Inl e \<Rightarrow>
          (Inl e, request (download_url filename)
                    (appendLine (''Downloading binary from '' @ download_url filename) w))
      | Inr response \<Rightarrow>
          (case createWriteStream destPath response
                  (request (download_url filename)
                     (appendLine (''Downloading binary from '' @ download_url filename) w)) of
             (Some err, w3) \<Rightarrow> (Inl err, w3)
           | (None, w3) \<Rightarrow> (Inr (), writer_close h filename destPath (release_after env) w3)))"
  by (simp only: downloadBinary_def Let_def)


lemma downloadBinary_frame [simp]:
  "readonly (snd (downloadBinary h n p env w)) = readonly w"
  "customBinaryPath (snd (downloadBinary h n p env w)) = customBinaryPath w"
  "client (snd (downloadBinary h n p env w)) = client w"
  "created (snd (downloadBinary h n p env w)) = created w"
  "processes (snd (downloadBinary h n p env w)) = processes w"
  "notifications (snd (downloadBinary h n p env w)) = notifications w"
proof -
  define w2 where "w2 = request (download_url n)
      (appendLine (''Downloading binary from '' @ download_url n) w)"
  have w2: "readonly w2 = readonly w" "customBinaryPath w2 = customBinaryPath w"
    "client w2 = client w" "created w2 = created w" "processes w2 = processes w"
    "notifications w2 = notifications w"
    by (simp_all add: w2_def)
  have "readonly (snd (downloadBinary h n p env w)) = readonly w
    \<and> customBinaryPath (snd (downloadBinary h n p env w)) = customBinaryPath w
    \<and> client (snd (downloadBinary h n p env w)) = client w
    \<and> created (snd (downloadBinary h n p env w)) = created w
    \<and> processes (snd (downloadBinary h n p env w)) = processes w
    \<and> notifications (snd (downloadBinary h n p env w)) = notifications w"
  proof (cases "axios (artifact env)")
    case (Inl e)
    then have "snd (downloadBinary h n p env w) = w2"
      unfolding downloadBinary_unfold w2_def [symmetric] by simp
    then show ?thesis
      using w2 by simp
  next
    case (Inr s)
    obtain eo w3 where cw: "createWriteStream p s w2 = (eo, w3)"
      by (cases "createWriteStream p s w2")
    then have "w3 = snd (createWriteStream p s w2)"
      by simp
    then have w3: "readonly w3 = readonly w" "customBinaryPath w3 = customBinaryPath w"
      "client w3 = client w" "created w3 = created w" "processes w3 = processes w"
      "notifications w3 = notifications w"
      using w2 by simp_all
    show ?thesis
    proof (cases eo)
      case None
      then have "snd (downloadBinary h n p env w) = writer_close h n p (release_after env) w3"
        unfolding downloadBinary_unfold w2_def [symmetric] using Inr cw by simp
      then show ?thesis
        using w3 by simp
    next
      case (Some err)
      then have "snd (downloadBinary h n p env w) = w3"
        unfolding downloadBinary_unfold w2_def [symmetric] using Inr cw by simp
      then show ?thesis
        using w3 by simp
    qed
  qed
  then show "readonly (snd (downloadBinary h n p env w)) = readonly w"
    "customBinaryPath (snd (downloadBinary h n p env w)) = customBinaryPath w"
    "client (snd (downloadBinary h n p env w)) = client w"
    "created (snd (downloadBinary h n p env w)) = created w"
    "processes (snd (downloadBinary h n p env w)) = processes w"
    "notifications (snd (downloadBinary h n p env w)) = notifications w"
    by simp_all
qed

lemma isRunning_downloadBinary [simp]:
  "isRunning (snd (downloadBinary h n p env w)) = isRunning w"
  by (simp add: isRunning_def)

section \<open>The identifiers, reading the sidecar, finding the asset\<close>

lemma getServerBinaryName_values:
  "os_platform h = ''linux'' \<Longrightarrow> os_arch h = ''x64'' \<Longrightarrow>
     getServerBinaryName h = Some ''forgevsc-linux-x86_64''"
  "os_platform h = ''linux'' \<Longrightarrow> os_arch h = ''arm64'' \<Longrightarrow>
     getServerBinaryName h = Some ''forgevsc-linux-aarch64''"
  "os_platform h = ''darwin'' \<Longrightarrow> os_arch h = ''x64'' \<Longrightarrow>
     getServerBinaryName h = Some ''forgevsc-macos-x86_64''"
  "os_platform h = ''darwin'' \<Longrightarrow> os_arch h = ''arm64'' \<Longrightarrow>
     getServerBinaryName h = Some ''forgevsc-macos-aarch64''"
  "os_platform h = ''win32'' \<Longrightarrow> os_arch h = ''x64'' \<Longrightarrow>
     getServerBinaryName h = Some ''forgevsc-windows-x86_64.exe''"
  by (simp_all add: getServerBinaryName_def)

lemma readMetadata_missing:
  "\<not> existsSync w (getMetadataPath p) \<Longrightarrow> readMetadata h p w = (None, w)"
  by (simp add: readMetadata_def Let_def)

lemma readMetadata_malformed:
  "fs w (getMetadataPath p) = Some (File c) \<Longrightarrow> JSON_parse h c = Inl e \<Longrightarrow>
     fst (readMetadata h p w) = None"
  by (simp add: readMetadata_def readFileSync_def existsSync_def Let_def)

lemma find_Some_mem: "find P xs = Some x \<Longrightarrow> x \<in> set xs \<and> P x"
  by (induction xs) (auto split: if_splits)

lemma downloadBinary_writer_error:
  assumes "axios (artifact env) = Inr (Stream chunks (Some e))"
    and "fs w destPath \<noteq> Some Dir" "destPath \<notin> readonly w"
  shows "fst (downloadBinary h filename destPath env w) = Inl e"
    and "fs (snd (downloadBinary h filename destPath env w)) destPath = Some (File (concat chunks))"
    and "q \<noteq> destPath \<Longrightarrow> fs (snd (downloadBinary h filename destPath env w)) q = fs w q"
  using assms unfolding downloadBinary_unfold by (simp_all add: createWriteStream_def)

section \<open>The start request, step by step\<close>

lemma ensureStorage_frame:
  assumes "ensureStorage h w = (r, w1)"
  shows "customBinaryPath w1 = customBinaryPath w" "client w1 = client w" "created w1 = created w"
    "processes w1 = processes w" "requests w1 = requests w" "notifications w1 = notifications w"
    "readonly w1 = readonly w"
    "q \<noteq> globalStoragePath h \<Longrightarrow> fs w1 q = fs w q"
    "fs w1 (globalStoragePath h) = fs w (globalStoragePath h)
       \<or> fs w (globalStoragePath h) = None \<and> fs w1 (globalStoragePath h) = Some Dir"
  using assms
  by (auto simp add: ensureStorage_def attempt_def mkdirSync_def existsSync_def Let_def
      split: if_splits option.splits node.splits)

lemma startClient_launch_cases:
  assumes "startClient_launch h sp sr w = (r, w')"
  shows "created w' = created w \<and> client w' = client w
       \<or> created w' = Suc (created w) \<and> map_option command (client w') = Some sp"
  using assms
  by (auto simp add: startClient_launch_def andThen_def attempt_def chmodSync_def appendLine_def Let_def
      split: if_splits option.splits)

lemma startClient_begin_path:
  assumes "getServerBinaryName h = Some n" "\<not> isRunning w"
    and "ensureStorage h w = (Inr (), w1)"
  shows "(startClient_begin h env w = Suspended p w' \<longrightarrow>
            created w' = created w
          \<and> (p = DownloadPrompt n (fst (resolveServerPath h n w1))
             \<or> p = UpdatePrompt n (fst (resolveServerPath h n w1))))
       \<and> (startClient_begin h env w = Returned r w' \<longrightarrow> created w' \<noteq> created w \<longrightarrow>
            map_option command (client w') = Some (fst (resolveServerPath h n w1)))"
proof -
  obtain sp w2 where rs: "resolveServerPath h n w1 = (sp, w2)"
    by (cases "resolveServerPath h n w1")
  have c2: "created w2 = created w1"
    using rs by (auto simp add: resolveServerPath_def split: option.splits if_splits)
  have c1: "created w1 = created w"
    using assms(3) by (auto simp add: ensureStorage_def attempt_def mkdirSync_def Let_def
        split: if_splits option.splits node.splits)
  show ?thesis
  proof (cases "existsSync w2 sp")
    case False
    then show ?thesis
      using assms rs c1 c2 by (auto simp add: startClient_begin_def)
  next
    case True
    obtain u w3 where su: "shouldUpdate h sp n (release_check env) w2 = (u, w3)"
      by (cases "shouldUpdate h sp n (release_check env) w2")
    then have "w3 = snd (shouldUpdate h sp n (release_check env) w2)"
      by simp
    then have c3: "created w3 = created w"
      using c1 c2 by simp
    show ?thesis
    proof (cases u)
      case True
      then show ?thesis
        using assms rs su c3 \<open>existsSync w2 sp\<close> by (auto simp add: startClient_begin_def)
    next
      case False
      obtain r4 w4 where l: "startClient_launch h sp (client_start env) w3 = (r4, w4)"
        by (cases "startClient_launch h sp (client_start env) w3")
      from startClient_launch_cases[OF l] c3 show ?thesis
        using assms rs su \<open>existsSync w2 sp\<close> False l by (auto simp add: startClient_begin_def)
    qed
  qed
qed

lemma startClient_resume_path:
  assumes "startClient_resume h env q w = (r, w')"
    and "q = DownloadPrompt n sp \<or> q = UpdatePrompt n sp"
    and "created w' \<noteq> created w"
  shows "map_option command (client w') = Some sp"
proof -
  define d where "d = downloadBinary h n sp (download env) w"
  define d' where "d' = downloadBinary h n sp (download env) (appendLine ''Updating ForgeLSP binary...'' w)"
  have cd: "created (snd d) = created w" "created (snd d') = created w"
    by (simp_all add: d_def d'_def)
  have "\<exists>w0. created w0 = created w \<and>
          (w' = w0 \<or> startClient_launch h sp (client_start env) w0 = (r, w'))"
  proof (cases q)
    case (DownloadPrompt n' sp')
    then have q: "q = DownloadPrompt n sp"
      using assms(2) by simp
    show ?thesis
    proof (cases "choice env = Some ''Download''")
      case False
      then show ?thesis
        using assms(1) q by (auto simp add: startClient_resume_def)
    next
      case True
      show ?thesis
      proof (cases "fst d")
        case (Inl e)
        then have "w' = appendLineError ''ForgeLSP: Failed to download binary. '' e
            (showErrorMessage ''ForgeLSP: Failed to download binary. '' (Some e) (snd d))"
          using assms(1) q True
          by (cases d) (simp add: startClient_resume_def d_def [symmetric] Let_def)
        then show ?thesis
          using cd by (intro exI[of _ w']) simp
      next
        case (Inr u)
        then have "startClient_launch h sp (client_start env)
            (showInformationMessage ''ForgeLSP binary downloaded successfully.'' (snd d)) = (r, w')"
          using assms(1) q True
          by (cases d) (simp add: startClient_resume_def d_def [symmetric])
        then show ?thesis
          using cd
          by (intro exI[of _ "showInformationMessage ''ForgeLSP binary downloaded successfully.'' (snd d)"])
             simp
      qed
    qed
  next
    case (UpdatePrompt n' sp')
    then have q: "q = UpdatePrompt n sp"
      using assms(2) by simp
    show ?thesis
    proof (cases "choice env = Some ''Update''")
      case False
      then show ?thesis
        using assms(1) q by (auto simp add: startClient_resume_def)
    next
      case True
      show ?thesis
      proof (cases "fst d'")
        case (Inl e)
        then have "startClient_launch h sp (client_start env)
            (appendLineError ''ForgeLSP: Failed to update binary. '' e
              (showErrorMessage ''ForgeLSP: Failed to update binary. '' (Some e) (snd d'))) = (r, w')"
          using assms(1) q True
          by (cases d') (simp add: startClient_resume_def d'_def [symmetric] Let_def)
        then show ?thesis
          using cd
          by (intro exI[of _ "appendLineError ''ForgeLSP: Failed to update binary. '' e
              (showErrorMessage ''ForgeLSP: Failed to update binary. '' (Some e) (snd d'))"])
             simp
      next
        case (Inr u)
        then have "startClient_launch h sp (client_start env)
            (showInformationMessage ''ForgeLSP binary updated successfully.'' (snd d')) = (r, w')"
          using assms(1) q True
          by (cases d') (simp add: startClient_resume_def d'_def [symmetric])
        then show ?thesis
          using cd
          by (intro exI[of _ "showInformationMessage ''ForgeLSP binary updated successfully.'' (snd d')"])
             simp
      qed
    qed
  qed
  then obtain w0 where w0: "created w0 = created w"
    "w' = w0 \<or> startClient_launch h sp (client_start env) w0 = (r, w')"
    by blast
  then show ?thesis
    using assms(3) startClient_launch_cases[of h sp "client_start env" w0 r w'] by auto
qed

section \<open>The update command with an override\<close>

text \<open>
  With an override that exists and no client running, the \<^verbatim>\<open>try\<close> block of
  the command downloads nothing itself: it shows its two messages and calls
  \<^verbatim>\<open>startClient\<close>.
\<close>

lemma updateLSP_try_override:
  assumes "customExists customPath w" and "\<not> isRunning w"
  shows "updateLSP_try h env serverBinaryName customPath serverPath w =
     startClient h (restart env)
       (showInformationMessage ''ForgeLSP binary updated successfully. Restarting LSP...''
          (showInformationMessage ''ForgeLSP: Using custom binary; update skipped.'' w))"
  using assms by (simp add: updateLSP_try_def andThen_def)

section \<open>The claims\<close>

subsection \<open>Failed download over an installed binary\<close>

text \<open>
  Claim C1 says that a download whose stream fails in the middle of the
  transfer makes the install fail and leaves the binary that was installed and
  its sidecar byte for byte as they were. \<^verbatim>\<open>downloadBinary\<close> opens the
  destination itself for writing and pipes the response into it, so the
  installed bytes are gone as soon as the writer is opened. The comments of
  \<^verbatim>\<open>startClient\<close> ("Continue with existing binary even if update fails") and
  of the update command ("Attempt to restart with the existing binary if the
  update failed") expect the installed binary to survive. Evaluated on the
  installed binary \<open>OLD\<close> with a writer that fails after the chunk \<open>NE\<close>: the
  error is propagated and the sidecar is unchanged, but the binary now holds
  \<open>NE\<close>.
\<close>

theorem downloadBinary_failed_update:
  "fst (downloadBinary example_host ''forgevsc-linux-x86_64'' example_bin broken_download installed)
     = Inl (WriteStreamError ''ENOSPC'')
   \<and> fs installed example_bin = Some (File ''OLD'')
   \<and> fs (snd (downloadBinary example_host ''forgevsc-linux-x86_64'' example_bin broken_download
              installed)) example_bin = Some (File ''NE'')
   \<and> fs (snd (downloadBinary example_host ''forgevsc-linux-x86_64'' example_bin broken_download
              installed)) (getMetadataPath example_bin)
     = fs installed (getMetadataPath example_bin)"
  by (simp add: code_defs surface_defs fs_defs example_defs Let_def)

subsection \<open>The update decision\<close>

text \<open>
  Claim C2: when the local metadata and the remote release information are both
  present, \<^verbatim>\<open>shouldUpdate\<close> returns true exactly when both \<^verbatim>\<open>updated_at\<close>
  values are timestamps and the remote one is strictly later; equal timestamps
  give false.
\<close>

theorem shouldUpdate_strict:
  assumes "readMetadata h binaryPath w = (Some localMetadata, w1)"
    and "getLatestReleaseInfo binaryName r w1 = (Some remoteInfo, w2)"
  shows "(fst (shouldUpdate h binaryPath binaryName r w) \<longleftrightarrow>
           (\<exists>tl tr. Date h (updated_at localMetadata) = Some tl
                  \<and> Date h (updated_at remoteInfo) = Some tr \<and> tl < tr))
       \<and> (Date h (updated_at remoteInfo) = Date h (updated_at localMetadata) \<longrightarrow>
            \<not> fst (shouldUpdate h binaryPath binaryName r w))"
  using assms by (auto simp add: shouldUpdate_def date_gt_def Let_def split: option.splits)

theorem shouldUpdate_strict_witness:
  "readMetadata example_host example_bin installed = (Some example_old, installed)
   \<and> getLatestReleaseInfo ''forgevsc-linux-x86_64'' example_release installed
       = (Some example_new, request release_url installed)
   \<and> fst (shouldUpdate example_host example_bin ''forgevsc-linux-x86_64'' example_release installed)"
proof -
  have a: "readMetadata example_host example_bin installed = (Some example_old, installed)"
    by (simp add: code_defs surface_defs fs_defs example_defs Let_def)
  have b: "getLatestReleaseInfo ''forgevsc-linux-x86_64'' example_release installed
       = (Some example_new, request release_url installed)"
    by (simp add: code_defs surface_defs fs_defs example_defs Let_def)
  show ?thesis
    using a b shouldUpdate_strict [OF a b]
    by (simp add: example_host_def example_date_def example_old_def example_new_def)
qed

text \<open>
  Claim C3: when reading the local metadata gives nothing (the sidecar is
  missing or malformed, see \<open>readMetadata_missing\<close> and
  \<open>readMetadata_malformed\<close>), \<^verbatim>\<open>shouldUpdate\<close> returns false whatever the
  reply of the release index would be, and no request is made.
\<close>

theorem shouldUpdate_without_metadata:
  "fst (readMetadata h binaryPath w) = None \<Longrightarrow>
     shouldUpdate h binaryPath binaryName r w = (False, snd (readMetadata h binaryPath w))
     \<and> requests (snd (shouldUpdate h binaryPath binaryName r w)) = requests w"
  by (cases "readMetadata h binaryPath w") (auto simp add: shouldUpdate_def dest: arg_cong[where f=snd])

theorem shouldUpdate_without_metadata_witness:
  "fst (readMetadata example_host example_bin stored) = None
   \<and> shouldUpdate example_host example_bin ''forgevsc-linux-x86_64'' example_release stored
       = (False, stored)"
proof -
  have a: "readMetadata example_host example_bin stored = (None, stored)"
    by (simp add: code_defs surface_defs fs_defs example_defs Let_def)
  then have b: "fst (readMetadata example_host example_bin stored) = None"
    by simp
  show ?thesis
    using shouldUpdate_without_metadata [OF b, of "''forgevsc-linux-x86_64''" example_release] a
    by simp
qed

subsection \<open>Platform support\<close>

text \<open>
  Claim C4: \<^verbatim>\<open>getServerBinaryName\<close> returns the identifier of the platform
  for each of the five pairs of the support matrix (Linux and macOS on x64 and
  arm64, Windows on x64), each pair with its own identifier, and null for every
  other pair; on an unsupported pair \<^verbatim>\<open>startClient\<close> returns before any
  prompt, constructs no client, starts no process, touches no file and makes no
  request, and, unless a client is already running, it shows the error message.
\<close>

theorem getServerBinaryName_matrix:
  "(os_platform h = ''linux'' \<and> os_arch h = ''x64'' \<longrightarrow>
      getServerBinaryName h = Some ''forgevsc-linux-x86_64'')
   \<and> (os_platform h = ''linux'' \<and> os_arch h = ''arm64'' \<longrightarrow>
        getServerBinaryName h = Some ''forgevsc-linux-aarch64'')
   \<and> (os_platform h = ''darwin'' \<and> os_arch h = ''x64'' \<longrightarrow>
        getServerBinaryName h = Some ''forgevsc-macos-x86_64'')
   \<and> (os_platform h = ''darwin'' \<and> os_arch h = ''arm64'' \<longrightarrow>
        getServerBinaryName h = Some ''forgevsc-macos-aarch64'')
   \<and> (os_platform h = ''win32'' \<and> os_arch h = ''x64'' \<longrightarrow>
        getServerBinaryName h = Some ''forgevsc-windows-x86_64.exe'')
   \<and> ((\<exists>n. getServerBinaryName h = Some n) \<longleftrightarrow> supported_matrix (os_platform h) (os_arch h))
   \<and> (\<not> supported_matrix (os_platform h) (os_arch h) \<longrightarrow>
        getServerBinaryName h = None
        \<and> (\<exists>w'. startClient_begin h env w = Returned (Inr ()) w'
                \<and> startClient h env w = (Inr (), w')
                \<and> client w' = client w \<and> created w' = created w
                \<and> processes w' = processes w \<and> fs w' = fs w \<and> requests w' = requests w
                \<and> (\<not> isRunning w \<longrightarrow>
                      notifications w' = notifications w @
                        [ErrorMessage ''ForgeLSP: Unsupported platform or architecture.'' None])))"
proof -
  have v: "os_platform h = ''linux'' \<and> os_arch h = ''x64'' \<longrightarrow>
      getServerBinaryName h = Some ''forgevsc-linux-x86_64''"
    "os_platform h = ''linux'' \<and> os_arch h = ''arm64'' \<longrightarrow>
        getServerBinaryName h = Some ''forgevsc-linux-aarch64''"
    "os_platform h = ''darwin'' \<and> os_arch h = ''x64'' \<longrightarrow>
        getServerBinaryName h = Some ''forgevsc-macos-x86_64''"
    "os_platform h = ''darwin'' \<and> os_arch h = ''arm64'' \<longrightarrow>
        getServerBinaryName h = Some ''forgevsc-macos-aarch64''"
    "os_platform h = ''win32'' \<and> os_arch h = ''x64'' \<longrightarrow>
        getServerBinaryName h = Some ''forgevsc-windows-x86_64.exe''"
    by (simp_all add: getServerBinaryName_def)
  have m: "(\<exists>n. getServerBinaryName h = Some n) \<longleftrightarrow> supported_matrix (os_platform h) (os_arch h)"
    by (simp add: getServerBinaryName_def supported_matrix_def Let_def)
  have u: "\<not> supported_matrix (os_platform h) (os_arch h) \<longrightarrow>
        getServerBinaryName h = None
        \<and> (\<exists>w'. startClient_begin h env w = Returned (Inr ()) w'
                \<and> startClient h env w = (Inr (), w')
                \<and> client w' = client w \<and> created w' = created w
                \<and> processes w' = processes w \<and> fs w' = fs w \<and> requests w' = requests w
                \<and> (\<not> isRunning w \<longrightarrow>
                      notifications w' = notifications w @
                        [ErrorMessage ''ForgeLSP: Unsupported platform or architecture.'' None]))"
  proof
    assume f: "\<not> supported_matrix (os_platform h) (os_arch h)"
    then have n: "getServerBinaryName h = None"
      using m by (cases "getServerBinaryName h") auto
    show "getServerBinaryName h = None
        \<and> (\<exists>w'. startClient_begin h env w = Returned (Inr ()) w'
                \<and> startClient h env w = (Inr (), w')
                \<and> client w' = client w \<and> created w' = created w
                \<and> processes w' = processes w \<and> fs w' = fs w \<and> requests w' = requests w
                \<and> (\<not> isRunning w \<longrightarrow>
                      notifications w' = notifications w @
                        [ErrorMessage ''ForgeLSP: Unsupported platform or architecture.'' None]))"
      using n
      by (cases "isRunning w")
         (simp_all add: startClient_def startClient_begin_def Let_def showErrorMessage_def)
  qed
  show ?thesis
    using v m u by (intro conjI)
qed

theorem getServerBinaryName_matrix_witness:
  "os_platform (example_host\<lparr>os_platform := ''darwin'', os_arch := ''arm64''\<rparr>) = ''darwin''
   \<and> os_arch (example_host\<lparr>os_platform := ''darwin'', os_arch := ''arm64''\<rparr>) = ''arm64''
   \<and> getServerBinaryName (example_host\<lparr>os_platform := ''darwin'', os_arch := ''arm64''\<rparr>)
       = Some ''forgevsc-macos-aarch64''
   \<and> os_platform (example_host\<lparr>os_platform := ''win32''\<rparr>) = ''win32''
   \<and> os_arch (example_host\<lparr>os_platform := ''win32''\<rparr>) = ''x64''
   \<and> getServerBinaryName (example_host\<lparr>os_platform := ''win32''\<rparr>)
       = Some ''forgevsc-windows-x86_64.exe''
   \<and> \<not> supported_matrix ''linux'' ''ia32''
   \<and> getServerBinaryName (example_host\<lparr>os_arch := ''ia32''\<rparr>) = None
   \<and> \<not> isRunning fresh
   \<and> notifications (snd (startClient (example_host\<lparr>os_arch := ''ia32''\<rparr>) (example_start None) fresh))
       = [ErrorMessage ''ForgeLSP: Unsupported platform or architecture.'' None]
   \<and> client (snd (startClient (example_host\<lparr>os_arch := ''ia32''\<rparr>) (example_start None) fresh)) = None"
proof -
  have a: "os_platform (example_host\<lparr>os_platform := ''darwin'', os_arch := ''arm64''\<rparr>) = ''darwin''"
    "os_arch (example_host\<lparr>os_platform := ''darwin'', os_arch := ''arm64''\<rparr>) = ''arm64''"
    "os_platform (example_host\<lparr>os_platform := ''win32''\<rparr>) = ''win32''"
    "os_arch (example_host\<lparr>os_platform := ''win32''\<rparr>) = ''x64''"
    by (simp_all add: example_host_def)
  have b: "getServerBinaryName (example_host\<lparr>os_platform := ''darwin'', os_arch := ''arm64''\<rparr>)
       = Some ''forgevsc-macos-aarch64''"
    using a(1,2)
      getServerBinaryName_matrix
        [of "example_host\<lparr>os_platform := ''darwin'', os_arch := ''arm64''\<rparr>" "example_start None" fresh]
    by blast
  have c: "getServerBinaryName (example_host\<lparr>os_platform := ''win32''\<rparr>)
       = Some ''forgevsc-windows-x86_64.exe''"
    using a(3,4)
      getServerBinaryName_matrix [of "example_host\<lparr>os_platform := ''win32''\<rparr>" "example_start None" fresh]
    by blast
  have d: "\<not> supported_matrix ''linux'' ''ia32''" "\<not> isRunning fresh"
    "os_platform (example_host\<lparr>os_arch := ''ia32''\<rparr>) = ''linux''"
    "os_arch (example_host\<lparr>os_arch := ''ia32''\<rparr>) = ''ia32''"
    "client fresh = None" "notifications fresh = []"
    by (simp_all add: supported_matrix_def example_host_def fresh_def isRunning_def)
  have e: "getServerBinaryName (example_host\<lparr>os_arch := ''ia32''\<rparr>) = None
   \<and> notifications (snd (startClient (example_host\<lparr>os_arch := ''ia32''\<rparr>) (example_start None) fresh))
       = [ErrorMessage ''ForgeLSP: Unsupported platform or architecture.'' None]
   \<and> client (snd (startClient (example_host\<lparr>os_arch := ''ia32''\<rparr>) (example_start None) fresh)) = None"
    using d
      getServerBinaryName_matrix [of "example_host\<lparr>os_arch := ''ia32''\<rparr>" "example_start None" fresh]
    by auto
  show ?thesis
    using a b c d(1,2) e by simp
qed

subsection \<open>At most one instance\<close>

text \<open>
  A start request while the client is running is a no-op: the whole world (the
  client, its identity, the processes) is unchanged.
\<close>

lemma startClient_running_noop:
  "isRunning w \<Longrightarrow>
     startClient_begin h env w = Returned (Inr ()) w \<and> startClient h env w = (Inr (), w)"
  by (simp add: startClient_def startClient_begin_def)

lemma startClient_running_noop_example:
  "isRunning running_world
   \<and> startClient example_host (example_start (Some ''Update'')) running_world = (Inr (), running_world)"
proof -
  have a: "isRunning running_world"
    by (simp add: isRunning_def running_world_def)
  show ?thesis
    using a startClient_running_noop [OF a, of example_host "example_start (Some ''Update'')"]
    by simp
qed

text \<open>
  Claim C5 says that a start request while the slot is running or starting is a
  no-op and that no second process is spawned. The docstring of
  \<^verbatim>\<open>startClient\<close> ("prevents duplicates") and the comment on its guard
  ("Prevent starting multiple client instances") say the same. The guard
  \<^verbatim>\<open>client && client.isRunning()\<close> is tested once, before the awaits, and not
  again before the client is constructed. Evaluated on the installed binary: a
  first request is suspended at its update prompt with no process alive; a
  second request made then is not rejected, it runs through and starts
  process 0; when the first request is resumed it constructs a second client
  and starts process 1. Two server processes are alive and the global
  \<^verbatim>\<open>client\<close> holds the second only.
\<close>

theorem startClient_reentrant:
  "\<not> isRunning installed
   \<and> startClient_begin example_host (example_start (Some ''Skip'')) installed
       = Suspended (UpdatePrompt ''forgevsc-linux-x86_64'' example_bin) prompted
   \<and> processes prompted = []
   \<and> processes (snd (startClient example_host (example_start (Some ''Skip'')) prompted))
       = [(0, example_bin)]
   \<and> fst (startClient_resume example_host (example_start (Some ''Skip''))
         (UpdatePrompt ''forgevsc-linux-x86_64'' example_bin)
         (snd (startClient example_host (example_start (Some ''Skip'')) prompted))) = Inr ()
   \<and> processes (snd (startClient_resume example_host (example_start (Some ''Skip''))
         (UpdatePrompt ''forgevsc-linux-x86_64'' example_bin)
         (snd (startClient example_host (example_start (Some ''Skip'')) prompted))))
       = [(0, example_bin), (1, example_bin)]
   \<and> client (snd (startClient_resume example_host (example_start (Some ''Skip''))
         (UpdatePrompt ''forgevsc-linux-x86_64'' example_bin)
         (snd (startClient example_host (example_start (Some ''Skip'')) prompted))))
       = Some \<lparr>ident = 1, command = example_bin, running = True\<rparr>"
  by (simp add: code_defs surface_defs fs_defs example_defs Let_def)

subsection \<open>The binary path\<close>

text \<open>
  Claim C6: for a start request on a supported platform with no client running,
  once the storage directory exists the path is the override when it is set,
  not empty and exists (whatever is at the storage location), and the storage
  location of the binary identifier otherwise. That path is the one named in
  the prompt the request is suspended at, and the command of the client the
  request constructs.
\<close>

theorem startClient_binary_path:
  assumes "getServerBinaryName h = Some n" and "\<not> isRunning w"
    and "ensureStorage h w = (Inr (), w1)"
  shows "(customBinaryPath w1 = Some p \<and> p \<noteq> [] \<and> existsSync w1 p \<longrightarrow>
            fst (resolveServerPath h n w1) = p)
       \<and> (\<not> (\<exists>p. customBinaryPath w1 = Some p \<and> p \<noteq> [] \<and> existsSync w1 p) \<longrightarrow>
            fst (resolveServerPath h n w1) = path_join h (globalStoragePath h) n)
       \<and> (startClient_begin h env w = Suspended q w2 \<longrightarrow>
            q = DownloadPrompt n (fst (resolveServerPath h n w1))
          \<or> q = UpdatePrompt n (fst (resolveServerPath h n w1)))
       \<and> (startClient h env w = (r, w') \<and> created w' \<noteq> created w \<longrightarrow>
            map_option command (client w') = Some (fst (resolveServerPath h n w1)))
       \<and> customBinaryPath w1 = customBinaryPath w
       \<and> (existsSync w p \<longrightarrow> existsSync w1 p)"
proof -
  have a: "(customBinaryPath w1 = Some p \<and> p \<noteq> [] \<and> existsSync w1 p \<longrightarrow>
            fst (resolveServerPath h n w1) = p)
       \<and> (\<not> (\<exists>p. customBinaryPath w1 = Some p \<and> p \<noteq> [] \<and> existsSync w1 p) \<longrightarrow>
            fst (resolveServerPath h n w1) = path_join h (globalStoragePath h) n)"
    by (auto simp add: resolveServerPath_def customExists_def split: option.splits)
  have b: "startClient_begin h env w = Suspended q w2 \<longrightarrow>
            q = DownloadPrompt n (fst (resolveServerPath h n w1))
          \<or> q = UpdatePrompt n (fst (resolveServerPath h n w1))"
    using startClient_begin_path[OF assms, of env q w2] by simp
  have c: "startClient h env w = (r, w') \<and> created w' \<noteq> created w \<longrightarrow>
            map_option command (client w') = Some (fst (resolveServerPath h n w1))"
  proof (intro impI, elim conjE)
    assume s: "startClient h env w = (r, w')" and cr: "created w' \<noteq> created w"
    show "map_option command (client w') = Some (fst (resolveServerPath h n w1))"
    proof (cases "startClient_begin h env w")
      case (Returned r0 w0)
      then have "r0 = r" "w0 = w'"
        using s by (simp_all add: startClient_def)
      then show ?thesis
        using startClient_begin_path[OF assms, of env q w' r] Returned cr by simp
    next
      case (Suspended q0 w0)
      then have res: "startClient_resume h env q0 w0 = (r, w')"
        using s by (simp add: startClient_def)
      have q0: "q0 = DownloadPrompt n (fst (resolveServerPath h n w1))
          \<or> q0 = UpdatePrompt n (fst (resolveServerPath h n w1))"
        using startClient_begin_path[OF assms, of env q0 w0] Suspended by simp
      have "created w0 = created w"
        using startClient_begin_path[OF assms, of env q0 w0] Suspended by simp
      then show ?thesis
        using startClient_resume_path[OF res q0] cr by simp
    qed
  qed
  have d: "customBinaryPath w1 = customBinaryPath w"
    using ensureStorage_frame(1)[OF assms(3)] .
  have e: "existsSync w p \<longrightarrow> existsSync w1 p"
    using ensureStorage_frame(8)[OF assms(3), of p] ensureStorage_frame(9)[OF assms(3)]
    by (cases "p = globalStoragePath h") (auto simp add: existsSync_def)
  show ?thesis
    using a b c d e by blast
qed

theorem startClient_binary_path_witness:
  "getServerBinaryName example_host = Some ''forgevsc-linux-x86_64''
   \<and> \<not> isRunning overridden
   \<and> ensureStorage example_host overridden = (Inr (), overridden)
   \<and> customBinaryPath overridden = Some ''/opt/lsp'' \<and> existsSync overridden ''/opt/lsp''
   \<and> existsSync overridden (path_join example_host (globalStoragePath example_host) ''forgevsc-linux-x86_64'')
   \<and> fst (resolveServerPath example_host ''forgevsc-linux-x86_64'' overridden) = ''/opt/lsp''
   \<and> map_option command
        (client (snd (startClient example_host (example_start (Some ''Skip'')) overridden)))
       = Some ''/opt/lsp''"
proof -
  have a: "getServerBinaryName example_host = Some ''forgevsc-linux-x86_64''"
    by (simp add: code_defs surface_defs fs_defs example_defs Let_def)
  have b: "\<not> isRunning overridden"
    by (simp add: code_defs surface_defs fs_defs example_defs Let_def)
  have c: "ensureStorage example_host overridden = (Inr (), overridden)"
    by (simp add: code_defs surface_defs fs_defs example_defs Let_def)
  have d: "customBinaryPath overridden = Some ''/opt/lsp''" "existsSync overridden ''/opt/lsp''"
    "existsSync overridden (path_join example_host (globalStoragePath example_host) ''forgevsc-linux-x86_64'')"
    by (simp_all add: code_defs surface_defs fs_defs example_defs Let_def)
  have e: "created (snd (startClient example_host (example_start (Some ''Skip'')) overridden))
      \<noteq> created overridden"
    by (simp add: code_defs surface_defs fs_defs example_defs Let_def)
  note t = startClient_binary_path [OF a b c, of "''/opt/lsp''" "example_start (Some ''Skip'')"
        "UpdatePrompt ''forgevsc-linux-x86_64'' ''/opt/lsp''" overridden
        "fst (startClient example_host (example_start (Some ''Skip'')) overridden)"
        "snd (startClient example_host (example_start (Some ''Skip'')) overridden)"]
  have r1: "fst (resolveServerPath example_host ''forgevsc-linux-x86_64'' overridden) = ''/opt/lsp''"
    using t d by simp
  have r2: "map_option command
        (client (snd (startClient example_host (example_start (Some ''Skip'')) overridden)))
       = Some (fst (resolveServerPath example_host ''forgevsc-linux-x86_64'' overridden))"
    using t e by simp
  show ?thesis
    using a b c d r1 r2 by simp
qed

subsection \<open>The release query\<close>

text \<open>
  Claim C8: \<^verbatim>\<open>getLatestReleaseInfo\<close> returns null on a network failure, on a
  status outside 200..299 and when no asset has the name of the binary; it has
  no error result, every exception of the request is caught. When an asset
  matches, it returns the \<^verbatim>\<open>updated_at\<close> of the first such asset and the
  \<^verbatim>\<open>tag_name\<close> of the release.
\<close>

theorem getLatestReleaseInfo_absent:
  "fst (getLatestReleaseInfo binaryName (NetworkFailure e) w) = None
   \<and> (\<not> (200 \<le> status \<and> status < 300) \<longrightarrow>
        fst (getLatestReleaseInfo binaryName (HttpResponse status d) w) = None)
   \<and> (200 \<le> status \<and> status < 300 \<longrightarrow>
        (fst (getLatestReleaseInfo binaryName (HttpResponse status d) w) = None
           \<longleftrightarrow> (\<forall>a \<in> set (assets d). asset_name a \<noteq> binaryName))
      \<and> (\<forall>a. find (\<lambda>a. asset_name a = binaryName) (assets d) = Some a \<longrightarrow>
            fst (getLatestReleaseInfo binaryName (HttpResponse status d) w)
              = Some \<lparr>updated_at = asset_updated_at a, tag_name = release_tag_name d\<rparr>))"
  by (auto simp add: getLatestReleaseInfo_def axios_def Let_def find_None_iff
      dest: find_Some_mem split: option.splits)

theorem getLatestReleaseInfo_absent_witness:
  "(200::nat) \<le> 200 \<and> (200::nat) < 300
   \<and> \<not> (200 \<le> (404::nat) \<and> (404::nat) < 300)
   \<and> fst (getLatestReleaseInfo ''forgevsc-linux-x86_64'' example_release fresh) = Some example_new
   \<and> fst (getLatestReleaseInfo ''forgevsc-linux-aarch64'' example_release fresh) = None
   \<and> fst (getLatestReleaseInfo ''forgevsc-linux-x86_64''
            (HttpResponse 404 \<lparr>release_tag_name = ''master'', assets = []\<rparr>) fresh) = None"
  using getLatestReleaseInfo_absent [of "''forgevsc-linux-x86_64''" "NetworkError ''ENOTFOUND''" fresh
      200 "\<lparr>release_tag_name = ''master'',
        assets =
          [\<lparr>asset_name = ''forgevsc-linux-x86_64'',
            asset_updated_at = ''2024-01-02T00:00:00Z'',
            browser_download_url = download_url ''forgevsc-linux-x86_64''\<rparr>]\<rparr>"]
    getLatestReleaseInfo_absent [of "''forgevsc-linux-aarch64''" "NetworkError ''ENOTFOUND''" fresh
      200 "\<lparr>release_tag_name = ''master'',
        assets =
          [\<lparr>asset_name = ''forgevsc-linux-x86_64'',
            asset_updated_at = ''2024-01-02T00:00:00Z'',
            browser_download_url = download_url ''forgevsc-linux-x86_64''\<rparr>]\<rparr>"]
    getLatestReleaseInfo_absent [of "''forgevsc-linux-x86_64''" "NetworkError ''ENOTFOUND''" fresh
      404 "\<lparr>release_tag_name = ''master'', assets = []\<rparr>"]
  by (simp add: example_release_def example_new_def)

subsection \<open>Metadata after an install\<close>




subsection \<open>Declining the first download\<close>

text \<open>
  Claim C9, as amended: on a supported platform with no client, no override and
  no binary at the storage location, a start request whose download prompt is
  not answered with \<^verbatim>\<open>Download\<close> ends with no client running, no process
  started and no request made. No regular file is created, changed or removed
  and every path other than the storage directory is as before; the storage
  directory itself is created when it was missing.
\<close>

theorem startClient_declined:
  assumes "getServerBinaryName h = Some n"
    and "customBinaryPath w = None"
    and "client w = None"
    and "fs w (path_join h (globalStoragePath h) n) = None"
    and "choice env \<noteq> Some ''Download''"
  shows "client (snd (startClient h env w)) = None
       \<and> \<not> isRunning (snd (startClient h env w))
       \<and> processes (snd (startClient h env w)) = processes w
       \<and> created (snd (startClient h env w)) = created w
       \<and> requests (snd (startClient h env w)) = requests w
       \<and> (\<forall>p. p \<noteq> globalStoragePath h \<longrightarrow> fs (snd (startClient h env w)) p = fs w p)
       \<and> (\<forall>p c. fs (snd (startClient h env w)) p = Some (File c) \<longleftrightarrow> fs w p = Some (File c))
       \<and> (fs (snd (startClient h env w)) (globalStoragePath h) = fs w (globalStoragePath h)
          \<or> fs w (globalStoragePath h) = None
            \<and> fs (snd (startClient h env w)) (globalStoragePath h) = Some Dir)"
proof -
  have nr: "\<not> isRunning w"
    using assms(3) by (simp add: isRunning_def)
  obtain r1 w1 where es: "ensureStorage h w = (r1, w1)"
    by (cases "ensureStorage h w")
  note f = ensureStorage_frame[OF es]
  have ne: "path_join h (globalStoragePath h) n \<noteq> globalStoragePath h"
    by (simp add: path_join_def)
  have "\<exists>w2. snd (startClient h env w) = w2 \<and> fs w2 = fs w1 \<and> client w2 = client w1
      \<and> processes w2 = processes w1 \<and> created w2 = created w1 \<and> requests w2 = requests w1"
  proof (cases r1)
    case (Inl e)
    then show ?thesis
      using assms(1) nr es by (simp add: startClient_def startClient_begin_def)
  next
    case (Inr u)
    have "resolveServerPath h n w1 = (path_join h (globalStoragePath h) n, w1)"
      using assms(2) f(1) by (simp add: resolveServerPath_def)
    moreover have "\<not> existsSync w1 (path_join h (globalStoragePath h) n)"
      using f(8)[OF ne] assms(4) by (simp add: existsSync_def)
    ultimately show ?thesis
      using assms(1,5) nr es Inr
      by (simp add: startClient_def startClient_begin_def startClient_resume_def)
  qed
  then have w2: "fs (snd (startClient h env w)) = fs w1" "client (snd (startClient h env w)) = None"
    "processes (snd (startClient h env w)) = processes w"
    "created (snd (startClient h env w)) = created w"
    "requests (snd (startClient h env w)) = requests w"
    using f(2-5) assms(3) by simp_all
  have a: "\<forall>p. p \<noteq> globalStoragePath h \<longrightarrow> fs (snd (startClient h env w)) p = fs w p"
    using f(8) w2(1) by simp
  have b: "fs (snd (startClient h env w)) (globalStoragePath h) = fs w (globalStoragePath h)
          \<or> fs w (globalStoragePath h) = None
            \<and> fs (snd (startClient h env w)) (globalStoragePath h) = Some Dir"
    using f(9) w2(1) by simp
  have c: "\<forall>p c. fs (snd (startClient h env w)) p = Some (File c) \<longleftrightarrow> fs w p = Some (File c)"
  proof (intro allI)
    fix p c
    show "fs (snd (startClient h env w)) p = Some (File c) \<longleftrightarrow> fs w p = Some (File c)"
      using a b by (cases "p = globalStoragePath h") auto
  qed
  show ?thesis
    using w2(2-5) a b c by (simp add: isRunning_def)
qed

theorem startClient_declined_witness:
  "getServerBinaryName example_host = Some ''forgevsc-linux-x86_64''
   \<and> customBinaryPath fresh = None \<and> client fresh = None
   \<and> fs fresh (path_join example_host (globalStoragePath example_host) ''forgevsc-linux-x86_64'')
       = None
   \<and> choice (example_start (Some ''Cancel'')) \<noteq> Some ''Download''
   \<and> \<not> isRunning (snd (startClient example_host (example_start (Some ''Cancel'')) fresh))
   \<and> fs (snd (startClient example_host (example_start (Some ''Cancel'')) fresh)) example_bin = None
   \<and> requests (snd (startClient example_host (example_start (Some ''Cancel'')) fresh)) = []"
proof -
  have a: "getServerBinaryName example_host = Some ''forgevsc-linux-x86_64''"
    "customBinaryPath fresh = None" "client fresh = None"
    "fs fresh (path_join example_host (globalStoragePath example_host) ''forgevsc-linux-x86_64'')
       = None"
    "choice (example_start (Some ''Cancel'')) \<noteq> Some ''Download''"
    by (simp_all add: code_defs surface_defs fs_defs example_defs Let_def)
  have b: "example_bin \<noteq> globalStoragePath example_host" "fs fresh example_bin = None"
    "requests fresh = []"
    by (simp_all add: example_defs)
  show ?thesis
    using a b startClient_declined [OF a]
    by simp
qed

text \<open>
  As stated, with nothing created on disk, the claim fails in the fresh
  environment: \<^verbatim>\<open>startClient\<close> creates the storage directory (lines 255-258)
  before it shows the prompt, and the directory stays when the user declines.
\<close>

theorem startClient_declined_creates_storage:
  "fs fresh ''/storage'' = None
   \<and> fst (startClient example_host (example_start (Some ''Cancel'')) fresh) = Inr ()
   \<and> fs (snd (startClient example_host (example_start (Some ''Cancel'')) fresh)) ''/storage''
       = Some Dir"
  by (simp add: code_defs surface_defs fs_defs example_defs Let_def)

subsection \<open>Manual update with an override\<close>

text \<open>
  Claim C10 says that the update command, run while the override is set and
  exists, downloads nothing and modifies no binary and no sidecar. The command
  skips its own download, but it ends in \<^verbatim>\<open>startClient\<close>, whose update check
  has no such guard. Evaluated on an override binary \<open>CUSTOM\<close> with a sidecar
  of the earlier day, a release of the later day and a user who answers
  \<^verbatim>\<open>Update\<close>: the command reports the update as skipped, then the release
  asset is downloaded over the override binary and its sidecar is rewritten.
\<close>

theorem updateLSP_override_downloads:
  "customBinaryPath overridden = Some ''/opt/lsp''
   \<and> fs overridden ''/opt/lsp'' = Some (File ''CUSTOM'')
   \<and> fst (updateLSP example_host example_update overridden) = Inr ()
   \<and> requests (snd (updateLSP example_host example_update overridden))
       = [release_url, download_url ''forgevsc-linux-x86_64'', release_url]
   \<and> fs (snd (updateLSP example_host example_update overridden)) ''/opt/lsp''
       = Some (File ''NEW'')
   \<and> fs (snd (updateLSP example_host example_update overridden)) (getMetadataPath ''/opt/lsp'')
       = Some (File (example_json example_new))
   \<and> notifications (snd (updateLSP example_host example_update overridden))
       = [InformationMessage ''ForgeLSP: Using custom binary; update skipped.'',
          InformationMessage ''ForgeLSP binary updated successfully. Restarting LSP...'',
          InformationPrompt ''A new version of ForgeLSP is available. Update now?''
            [''Update'', ''Skip''],
          InformationMessage ''ForgeLSP binary updated successfully.'']"
  by (simp add: code_defs surface_defs fs_defs example_defs Let_def)

end
